theory Spec2Isabelle
  imports Main
begin

section \<open>Values of the pipeline\<close>

text \<open>
  \<^verbatim>\<open>etl_pipeline.py\<close> fetches a JSON array of model descriptions, turns it into a
  pandas DataFrame (\<^verbatim>\<open>transform_models_data\<close>) and upserts the frame into the table
  \<^verbatim>\<open>huggingface_models\<close> (\<^verbatim>\<open>load_to_postgres\<close>).

  A decoded JSON value is a \<open>json\<close>; Python's \<^verbatim>\<open>None\<close> is \<open>JNull\<close>. JSON numbers
  are modelled as integers. A raw record is a Python dict, a map from keys to values.
  A cell of the frame is a Python value, a pandas \<^verbatim>\<open>Timestamp\<close> or \<^verbatim>\<open>NaT\<close>. Instants are
  integers, nanoseconds since the epoch. A timestamp is timezone-naive (\<open>Timestamp\<close>)
  or timezone-aware (\<open>TimestampTz\<close>); \<^verbatim>\<open>datetime.now()\<close> and \<^verbatim>\<open>pd.Timestamp.now()\<close> are
  naive.
\<close>

datatype json =
    JNull
  | JBool bool
  | JInt int
  | JStr string
  | JArr "json list"
  | JObj "(string \<times> json) list"

type_synonym rawrecord = "string \<rightharpoonup> json"

datatype cell = Py json | Timestamp int | TimestampTz int | NaT

datatype error =
    KeyError string
  | TypeError
  | ValueError
  | OperationalError
  | ProgrammingError
  | IntegrityError
  | DataError
  | DatabaseError

type_synonym dataframe = "(string \<times> cell list) list"

subsection \<open>Python expressions used by the transform\<close>

text \<open>\<^verbatim>\<open>model.get(key, default)\<close>: the default only when the key is absent.\<close>

definition dict_get :: "rawrecord \<Rightarrow> string \<Rightarrow> json \<Rightarrow> json" where
  "dict_get model key dflt = (case model key of None \<Rightarrow> dflt | Some v \<Rightarrow> v)"

text \<open>Python truth value of a decoded JSON value, and \<^verbatim>\<open>a or b\<close>.\<close>

fun truthy :: "json \<Rightarrow> bool" where
  "truthy JNull = False"
| "truthy (JBool b) = b"
| "truthy (JInt n) = (n \<noteq> 0)"
| "truthy (JStr s) = (s \<noteq> [])"
| "truthy (JArr xs) = (xs \<noteq> [])"
| "truthy (JObj kvs) = (kvs \<noteq> [])"

definition py_or :: "json \<Rightarrow> json \<Rightarrow> json" where
  "py_or a b = (if truthy a then a else b)"

text \<open>
  \<^verbatim>\<open>pd.to_datetime(model.get("lastModified", pd.NaT), errors='coerce')\<close>. The library's
  parser is the parameter \<open>to_datetime\<close>. For a value it reads as an instant it gives
  \<open>Naive t\<close> or, when the value carries a zone or an offset (an ISO string ending in
  \<^verbatim>\<open>Z\<close>), \<open>Aware t\<close>; for a value it coerces to a missing one it gives \<open>Coerced\<close>; and
  it can raise even with \<^verbatim>\<open>errors='coerce'\<close> (\<^verbatim>\<open>ValueError\<close> on a mapping), which is
  \<open>Inl\<close>. An absent key gives \<^verbatim>\<open>NaT\<close>.
\<close>

datatype parsed = Naive int | Aware int | Coerced

definition last_modified_cell :: "(json \<Rightarrow> error + parsed) \<Rightarrow> rawrecord \<Rightarrow> error + cell" where
  "last_modified_cell to_datetime model =
     (case model ''lastModified'' of
        None \<Rightarrow> Inr NaT
      | Some v \<Rightarrow>
          (case to_datetime v of
             Inl e \<Rightarrow> Inl e
           | Inr (Naive t) \<Rightarrow> Inr (Timestamp t)
           | Inr (Aware t) \<Rightarrow> Inr (TimestampTz t)
           | Inr Coerced \<Rightarrow> Inr NaT))"

text \<open>
  The dict built for one model (lines 36 to 48), keys in the order written. Its last
  value is the only one whose evaluation can raise.
\<close>

definition row_dict ::
  "(json \<Rightarrow> error + parsed) \<Rightarrow> rawrecord \<Rightarrow> error + (string \<times> cell) list" where
  "row_dict to_datetime model =
    (case last_modified_cell to_datetime model of
      Inl e \<Rightarrow> Inl e
    | Inr lm \<Rightarrow> Inr
     [(''modelname'', Py (dict_get model ''name'' (JStr ''''))),
      (''modelId'', Py (dict_get model ''modelId'' (JStr ''''))),
      (''author'', Py (dict_get model ''author'' (JStr ''unknown''))),
      (''downloads'', Py (py_or (dict_get model ''downloads'' JNull) (JInt 0))),
      (''likes'', Py (py_or (dict_get model ''likes'' JNull) (JInt 0))),
      (''pipeline_tag'', Py (dict_get model ''pipeline_tag'' (JStr ''''))),
      (''library_name'', Py (dict_get model ''library_name'' (JStr ''''))),
      (''model_type'', Py (dict_get model ''model_type'' (JStr ''''))),
      (''license'', Py (dict_get model ''license'' (JStr ''unknown''))),
      (''private'', Py (dict_get model ''private'' (JBool False))),
      (''last_modified'', lm)])"

text \<open>The list comprehension: one dict per model in order; the first exception ends it.\<close>

fun list_comprehension :: "('a \<Rightarrow> error + 'b) \<Rightarrow> 'a list \<Rightarrow> error + 'b list" where
  "list_comprehension f [] = Inr []"
| "list_comprehension f (x # xs) =
     (case f x of
        Inl e \<Rightarrow> Inl e
      | Inr y \<Rightarrow> (case list_comprehension f xs of Inl e \<Rightarrow> Inl e | Inr ys \<Rightarrow> Inr (y # ys)))"

subsection \<open>The DataFrame operations the code uses\<close>

text \<open>
  A frame is its columns in order, each a name with the cells of that column.
  \<^verbatim>\<open>pd.DataFrame(dicts)\<close> of an empty list has no column at all; of a list of dicts
  it has one column per key of the dicts (here every dict has the same keys, those of
  the first), a key missing from a dict giving a missing value.
\<close>

definition DataFrame :: "(string \<times> cell) list list \<Rightarrow> dataframe" where
  "DataFrame dicts =
     (case dicts of
        [] \<Rightarrow> []
      | d # _ \<Rightarrow>
          map (\<lambda>k. (k, map (\<lambda>r. case map_of r k of None \<Rightarrow> Py JNull | Some c \<Rightarrow> c) dicts))
            (map fst d))"

text \<open>\<^verbatim>\<open>df[name]\<close> raises \<^verbatim>\<open>KeyError\<close> for a column the frame does not have.\<close>

definition get_column :: "dataframe \<Rightarrow> string \<Rightarrow> error + cell list" where
  "get_column df name = (case map_of df name of None \<Rightarrow> Inl (KeyError name) | Some col \<Rightarrow> Inr col)"

text \<open>\<^verbatim>\<open>df[name] = values\<close> replaces the column in place, or appends a new one.\<close>

fun set_column :: "dataframe \<Rightarrow> string \<Rightarrow> cell list \<Rightarrow> dataframe" where
  "set_column [] name vals = [(name, vals)]"
| "set_column ((k, col) # df) name vals =
     (if k = name then (k, vals) # df else (k, col) # set_column df name vals)"

definition nrows :: "dataframe \<Rightarrow> nat" where
  "nrows df = (case df of [] \<Rightarrow> 0 | (_, col) # _ \<Rightarrow> length col)"

fun isna :: "cell \<Rightarrow> bool" where
  "isna NaT = True"
| "isna (Py JNull) = True"
| "isna _ = False"

definition fillna :: "cell list \<Rightarrow> cell \<Rightarrow> cell list" where
  "fillna col v = map (\<lambda>c. if isna c then v else c) col"

text \<open>\<^verbatim>\<open>Series.apply(f)\<close>: \<open>f\<close> on every cell in order; the first exception ends it.\<close>

fun apply_cells :: "(cell \<Rightarrow> error + cell) \<Rightarrow> cell list \<Rightarrow> error + cell list" where
  "apply_cells f [] = Inr []"
| "apply_cells f (c # cs) =
     (case f c of
        Inl e \<Rightarrow> Inl e
      | Inr y \<Rightarrow> (case apply_cells f cs of Inl e \<Rightarrow> Inl e | Inr ys \<Rightarrow> Inr (y # ys)))"

subsection \<open>The transform\<close>

definition timedelta_days :: "int \<Rightarrow> int" where
  "timedelta_days d = d * 86400000000000"

text \<open>
  \<^verbatim>\<open>lambda x: bool(x >= fetch_time - timedelta(days=30))\<close>, where \<^verbatim>\<open>fetch_time\<close> is the
  naive \<^verbatim>\<open>datetime.now()\<close>. Comparing a timezone-aware timestamp with it raises
  \<^verbatim>\<open>TypeError\<close>. A comparison with \<^verbatim>\<open>NaT\<close> is false; a value that is no timestamp cannot
  be compared with a datetime.
\<close>

fun recent_flag :: "int \<Rightarrow> cell \<Rightarrow> error + cell" where
  "recent_flag t_fetch (Timestamp t) = Inr (Py (JBool (t \<ge> t_fetch - timedelta_days 30)))"
| "recent_flag t_fetch (TimestampTz t) = Inl TypeError"
| "recent_flag t_fetch NaT = Inr (Py (JBool False))"
| "recent_flag t_fetch (Py v) = Inl TypeError"

text \<open>
  \<^verbatim>\<open>transform_models_data(models)\<close>. The clock is read twice: \<open>t_fill\<close> is
  \<^verbatim>\<open>pd.Timestamp.now()\<close> of line 51, \<open>t_fetch\<close> is \<^verbatim>\<open>datetime.now()\<close> of line 54.
\<close>

definition transform_models_data ::
  "(json \<Rightarrow> error + parsed) \<Rightarrow> int \<Rightarrow> int \<Rightarrow> rawrecord list \<Rightarrow> error + dataframe" where
  "transform_models_data to_datetime t_fill t_fetch models =
    (case list_comprehension (row_dict to_datetime) models of
      Inl e \<Rightarrow> Inl e
    | Inr dicts \<Rightarrow>
     (let df = DataFrame dicts in
      (case get_column df ''last_modified'' of
        Inl e \<Rightarrow> Inl e
      | Inr lm \<Rightarrow>
          let df1 = set_column df ''last_modified'' (fillna lm (Timestamp t_fill));
              df2 = set_column df1 ''fetch_time'' (replicate (nrows df1) (Timestamp t_fetch))
          in (case get_column df2 ''last_modified'' of
                Inl e \<Rightarrow> Inl e
              | Inr lm2 \<Rightarrow>
                  (case apply_cells (recent_flag t_fetch) lm2 of
                     Inl e \<Rightarrow> Inl e
                   | Inr flags \<Rightarrow> Inr (set_column df2 ''is_recent'' flags))))))"

text \<open>
  The two lines of \<^verbatim>\<open>__main__\<close> that hand the frame to the loader come after the store;
  first what a caller reads from the transform's result: a column, and one cell of it.
\<close>

definition column_of :: "error + dataframe \<Rightarrow> string \<Rightarrow> error + cell list" where
  "column_of result name = (case result of Inl e \<Rightarrow> Inl e | Inr df \<Rightarrow> get_column df name)"

definition cell_at :: "error + dataframe \<Rightarrow> string \<Rightarrow> nat \<Rightarrow> cell option" where
  "cell_at result name i =
     (case column_of result name of
        Inl e \<Rightarrow> None
      | Inr col \<Rightarrow> if i < length col then Some (col ! i) else None)"

text \<open>
  The records the transform gets through: \<^verbatim>\<open>lastModified\<close> is absent, or is parsed
  without an exception to a naive instant or to a missing value. For such records, the
  cell of line 47 and the instant \<^verbatim>\<open>last_modified\<close> holds after line 51; and the frame
  the transform returns when it returns, column by column.
\<close>

definition naive_or_missing :: "(json \<Rightarrow> error + parsed) \<Rightarrow> rawrecord \<Rightarrow> bool" where
  "naive_or_missing to_datetime model =
     (case model ''lastModified'' of
        None \<Rightarrow> True
      | Some v \<Rightarrow>
          (case to_datetime v of
             Inl e \<Rightarrow> False
           | Inr (Naive t) \<Rightarrow> True
           | Inr (Aware t) \<Rightarrow> False
           | Inr Coerced \<Rightarrow> True))"

definition last_modified_value :: "(json \<Rightarrow> error + parsed) \<Rightarrow> rawrecord \<Rightarrow> cell" where
  "last_modified_value to_datetime model =
     (case last_modified_cell to_datetime model of Inl e \<Rightarrow> NaT | Inr c \<Rightarrow> c)"

definition dict_of :: "(json \<Rightarrow> error + parsed) \<Rightarrow> rawrecord \<Rightarrow> (string \<times> cell) list" where
  "dict_of to_datetime model =
     [(''modelname'', Py (dict_get model ''name'' (JStr ''''))),
      (''modelId'', Py (dict_get model ''modelId'' (JStr ''''))),
      (''author'', Py (dict_get model ''author'' (JStr ''unknown''))),
      (''downloads'', Py (py_or (dict_get model ''downloads'' JNull) (JInt 0))),
      (''likes'', Py (py_or (dict_get model ''likes'' JNull) (JInt 0))),
      (''pipeline_tag'', Py (dict_get model ''pipeline_tag'' (JStr ''''))),
      (''library_name'', Py (dict_get model ''library_name'' (JStr ''''))),
      (''model_type'', Py (dict_get model ''model_type'' (JStr ''''))),
      (''license'', Py (dict_get model ''license'' (JStr ''unknown''))),
      (''private'', Py (dict_get model ''private'' (JBool False))),
      (''last_modified'', last_modified_value to_datetime model)]"

definition last_modified_time :: "(json \<Rightarrow> error + parsed) \<Rightarrow> int \<Rightarrow> rawrecord \<Rightarrow> int" where
  "last_modified_time to_datetime t_fill model =
     (case model ''lastModified'' of
        None \<Rightarrow> t_fill
      | Some v \<Rightarrow>
          (case to_datetime v of
             Inl e \<Rightarrow> t_fill
           | Inr (Naive t) \<Rightarrow> t
           | Inr (Aware t) \<Rightarrow> t_fill
           | Inr Coerced \<Rightarrow> t_fill))"

definition transformed ::
  "(json \<Rightarrow> error + parsed) \<Rightarrow> int \<Rightarrow> int \<Rightarrow> rawrecord list \<Rightarrow> dataframe" where
  "transformed to_datetime t_fill t_fetch models =
     [(''modelname'', map (\<lambda>m. Py (dict_get m ''name'' (JStr ''''))) models),
      (''modelId'', map (\<lambda>m. Py (dict_get m ''modelId'' (JStr ''''))) models),
      (''author'', map (\<lambda>m. Py (dict_get m ''author'' (JStr ''unknown''))) models),
      (''downloads'', map (\<lambda>m. Py (py_or (dict_get m ''downloads'' JNull) (JInt 0))) models),
      (''likes'', map (\<lambda>m. Py (py_or (dict_get m ''likes'' JNull) (JInt 0))) models),
      (''pipeline_tag'', map (\<lambda>m. Py (dict_get m ''pipeline_tag'' (JStr ''''))) models),
      (''library_name'', map (\<lambda>m. Py (dict_get m ''library_name'' (JStr ''''))) models),
      (''model_type'', map (\<lambda>m. Py (dict_get m ''model_type'' (JStr ''''))) models),
      (''license'', map (\<lambda>m. Py (dict_get m ''license'' (JStr ''unknown''))) models),
      (''private'', map (\<lambda>m. Py (dict_get m ''private'' (JBool False))) models),
      (''last_modified'', map (\<lambda>m. Timestamp (last_modified_time to_datetime t_fill m)) models),
      (''fetch_time'', replicate (length models) (Timestamp t_fetch)),
      (''is_recent'',
         map (\<lambda>m. Py (JBool (last_modified_time to_datetime t_fill m \<ge> t_fetch - timedelta_days 30)))
           models)]"

text \<open>
  A parser for the examples, with what pandas does on the values they use: an integer
  is read as nanoseconds since the epoch, naive; the string
  \<^verbatim>\<open>2024-01-01T00:00:00Z\<close> is read as that instant, aware (UTC); a mapping raises
  \<^verbatim>\<open>ValueError\<close>; a string that is no date and a null are coerced to a missing
  value. The examples use no other value; here they are coerced too.
\<close>

fun sample_to_datetime :: "json \<Rightarrow> error + parsed" where
  "sample_to_datetime (JInt n) = Inr (Naive n)"
| "sample_to_datetime (JStr s) =
     (if s = ''2024-01-01T00:00:00Z'' then Inr (Aware 1704067200000000000) else Inr Coerced)"
| "sample_to_datetime (JObj kvs) = Inl ValueError"
| "sample_to_datetime _ = Inr Coerced"

section \<open>The store and the load\<close>

text \<open>
  A row of \<^verbatim>\<open>huggingface_models\<close>, one field per column of the \<^verbatim>\<open>CREATE TABLE\<close>
  statement. The committed table is a list of rows (\<open>None\<close> before the table exists).
  Values are stored, and keys compared, as the cells that were sent: the server's
  conversion of a parameter to the type of its column (a number sent for a text column,
  the microsecond precision of \<^verbatim>\<open>TIMESTAMP\<close>) is not modelled. \<open>open_connections\<close> counts
  the connections opened and not yet closed.
\<close>

record db_row =
  modelId :: cell
  author :: cell
  downloads :: cell
  likes :: cell
  pipeline_tag :: cell
  library_name :: cell
  model_type :: cell
  license :: cell
  private' :: cell
  last_modified :: cell
  is_recent :: cell
  fetch_time :: cell

record store =
  table :: "db_row list option"
  open_connections :: nat

text \<open>
  What the outside world decides: whether \<^verbatim>\<open>psycopg2.connect\<close>, the \<^verbatim>\<open>CREATE TABLE\<close>
  statement and \<^verbatim>\<open>conn.commit()\<close> fail, and which parameter lists the server rejects
  for a reason other than the primary key (a value that does not fit its column).
\<close>

record faults =
  connect_fails :: bool
  create_fails :: bool
  rejects :: "cell list \<Rightarrow> bool"
  commit_fails :: bool

definition no_faults :: faults where
  "no_faults = \<lparr>connect_fails = False, create_fails = False, rejects = (\<lambda>_. False),
     commit_fails = False\<rparr>"

text \<open>The columns selected on lines 88 to 92, which are those of the \<^verbatim>\<open>INSERT\<close>.\<close>

definition schema_columns :: "string list" where
  "schema_columns =
     [''modelId'', ''author'', ''downloads'', ''likes'', ''pipeline_tag'', ''library_name'',
      ''model_type'', ''license'', ''private'', ''last_modified'', ''is_recent'', ''fetch_time'']"

text \<open>\<^verbatim>\<open>df[[...]]\<close> raises \<^verbatim>\<open>KeyError\<close> for a missing column; \<^verbatim>\<open>.values.tolist()\<close> gives the rows.\<close>

fun columns_of :: "dataframe \<Rightarrow> string list \<Rightarrow> error + cell list list" where
  "columns_of df [] = Inr []"
| "columns_of df (c # cs) =
     (case get_column df c of
        Inl e \<Rightarrow> Inl e
      | Inr col \<Rightarrow> (case columns_of df cs of Inl e \<Rightarrow> Inl e | Inr cols \<Rightarrow> Inr (col # cols)))"

fun rows_of :: "cell list list \<Rightarrow> cell list list" where
  "rows_of [] = []"
| "rows_of [col] = map (\<lambda>x. [x]) col"
| "rows_of (col # cols) = map2 (#) col (rows_of cols)"

definition select_records :: "dataframe \<Rightarrow> error + cell list list" where
  "select_records df =
     (case columns_of df schema_columns of Inl e \<Rightarrow> Inl e | Inr cols \<Rightarrow> Inr (rows_of cols))"

text \<open>The twelve \<^verbatim>\<open>%s\<close> of the statement, bound in the order of its column list.\<close>

fun bind_params :: "cell list \<Rightarrow> db_row option" where
  "bind_params [a, b, c, d, e, f, g, h, i, j, k, l] =
     Some \<lparr>modelId = a, author = b, downloads = c, likes = d, pipeline_tag = e,
       library_name = f, model_type = g, license = h, private' = i, last_modified = j,
       is_recent = k, fetch_time = l\<rparr>"
| "bind_params _ = None"

text \<open>
  \<^verbatim>\<open>INSERT ... ON CONFLICT (modelId) DO UPDATE SET\<close> with the ten assignments of lines
  102 to 111: a row with the key is updated in those columns, otherwise the new row is
  added.
\<close>

fun upsert :: "db_row \<Rightarrow> db_row list \<Rightarrow> db_row list" where
  "upsert new [] = [new]"
| "upsert new (r # rs) =
     (if modelId r = modelId new
      then r\<lparr>downloads := downloads new, likes := likes new,
             pipeline_tag := pipeline_tag new, library_name := library_name new,
             model_type := model_type new, license := license new,
             private' := private' new, last_modified := last_modified new,
             is_recent := is_recent new, fetch_time := fetch_time new\<rparr> # rs
      else r # upsert new rs)"

text \<open>
  One execution of the statement. \<^verbatim>\<open>modelId TEXT PRIMARY KEY\<close> does not admit
  \<^verbatim>\<open>NULL\<close>, which is how psycopg2 sends \<^verbatim>\<open>None\<close>.
\<close>

definition execute :: "faults \<Rightarrow> cell list \<Rightarrow> db_row list \<Rightarrow> error + db_row list" where
  "execute env params rows =
     (case bind_params params of
        None \<Rightarrow> Inl ProgrammingError
      | Some new \<Rightarrow>
          if modelId new = Py JNull then Inl IntegrityError
          else if rejects env params then Inl DataError
          else Inr (upsert new rows))"

text \<open>\<^verbatim>\<open>execute_batch\<close>: the statement once per record, in order; the first error ends it.\<close>

fun execute_batch :: "faults \<Rightarrow> cell list list \<Rightarrow> db_row list \<Rightarrow> error + db_row list" where
  "execute_batch env [] rows = Inr rows"
| "execute_batch env (params # rest) rows =
     (case execute env params rows of
        Inl e \<Rightarrow> Inl e
      | Inr rows' \<Rightarrow> execute_batch env rest rows')"

text \<open>\<^verbatim>\<open>CREATE TABLE IF NOT EXISTS\<close>: an absent table starts empty, an existing one stays.\<close>

definition existing_rows :: "store \<Rightarrow> db_row list" where
  "existing_rows s = (case table s of None \<Rightarrow> [] | Some existing \<Rightarrow> existing)"

text \<open>
  \<^verbatim>\<open>load_to_postgres(df)\<close>: the exception raised, if any, and the store afterwards. The
  statements run in the connection's transaction, on a copy of the rows; only
  \<^verbatim>\<open>conn.commit()\<close> writes the committed table. The handler of line 120 logs and re-raises; it neither
  rolls back nor closes.
\<close>

definition load_to_postgres :: "faults \<Rightarrow> dataframe \<Rightarrow> store \<Rightarrow> (error + unit) \<times> store" where
  "load_to_postgres env df s =
     (if connect_fails env then (Inl OperationalError, s)
      else
        let s1 = s\<lparr>open_connections := Suc (open_connections s)\<rparr> in
        if create_fails env then (Inl DatabaseError, s1)
        else
          (case select_records df of
             Inl e \<Rightarrow> (Inl e, s1)
           | Inr records \<Rightarrow>
               (case execute_batch env records (existing_rows s) of
                  Inl e \<Rightarrow> (Inl e, s1)
                | Inr rows' \<Rightarrow>
                    if commit_fails env then (Inl DatabaseError, s1)
                    else (Inr (), s1\<lparr>table := Some rows',
                                      open_connections := open_connections s1 - 1\<rparr>))))"

text \<open>Lines 128 and 129: the transform's frame goes to the loader.\<close>

definition transform_and_load ::
  "(json \<Rightarrow> error + parsed) \<Rightarrow> faults \<Rightarrow> int \<Rightarrow> int \<Rightarrow> rawrecord list \<Rightarrow> store
     \<Rightarrow> (error + unit) \<times> store" where
  "transform_and_load to_datetime env t_fill t_fetch models s =
     (case transform_models_data to_datetime t_fill t_fetch models of
        Inl e \<Rightarrow> (Inl e, s)
      | Inr df \<Rightarrow> load_to_postgres env df s)"

text \<open>The twelve parameters the loader sends for one model.\<close>

definition record_of ::
  "(json \<Rightarrow> error + parsed) \<Rightarrow> int \<Rightarrow> int \<Rightarrow> rawrecord \<Rightarrow> cell list" where
  "record_of to_datetime t_fill t_fetch m =
     [Py (dict_get m ''modelId'' (JStr '''')),
      Py (dict_get m ''author'' (JStr ''unknown'')),
      Py (py_or (dict_get m ''downloads'' JNull) (JInt 0)),
      Py (py_or (dict_get m ''likes'' JNull) (JInt 0)),
      Py (dict_get m ''pipeline_tag'' (JStr '''')),
      Py (dict_get m ''library_name'' (JStr '''')),
      Py (dict_get m ''model_type'' (JStr '''')),
      Py (dict_get m ''license'' (JStr ''unknown'')),
      Py (dict_get m ''private'' (JBool False)),
      Timestamp (last_modified_time to_datetime t_fill m),
      Py (JBool (last_modified_time to_datetime t_fill m \<ge> t_fetch - timedelta_days 30)),
      Timestamp t_fetch]"


text \<open>
  Two stores for the examples: one where the table does not exist yet, and one whose
  table holds a single row, stored by an earlier run for the model \<^verbatim>\<open>a/b\<close>.
\<close>

definition fresh_store :: store where
  "fresh_store = \<lparr>table = None, open_connections = 0\<rparr>"

definition one_row_store :: store where
  "one_row_store =
     \<lparr>table = Some [\<lparr>modelId = Py (JStr ''a/b''), author = Py (JStr ''old''),
        downloads = Py (JInt 3), likes = Py (JInt 5), pipeline_tag = Py (JStr ''''),
        library_name = Py (JStr ''''), model_type = Py (JStr ''''), license = Py (JStr ''mit''),
        private' = Py (JBool False), last_modified = Timestamp 7, is_recent = Py (JBool True),
        fetch_time = Timestamp 8\<rparr>],
      open_connections = 0\<rparr>"

section \<open>Properties of the transform\<close>

subsection \<open>When the transform returns, and what\<close>

lemma row_dict_Inr: "row_dict td m = Inr d \<Longrightarrow> d = dict_of td m"
  by (auto simp: row_dict_def dict_of_def last_modified_value_def split: sum.splits)

lemma comprehension_dicts:
  "list_comprehension (row_dict td) ms = Inr ds \<Longrightarrow> ds = map (dict_of td) ms"
  by (induction ms arbitrary: ds) (auto split: sum.splits dest: row_dict_Inr)

lemma naive_or_missing_row:
  "naive_or_missing td m \<Longrightarrow> row_dict td m = Inr (dict_of td m)"
  by (auto simp: naive_or_missing_def row_dict_def dict_of_def last_modified_value_def
      last_modified_cell_def split: option.splits sum.splits parsed.splits)

lemma comprehension_returns:
  "list_all (naive_or_missing td) ms \<Longrightarrow>
   list_comprehension (row_dict td) ms = Inr (map (dict_of td) ms)"
  by (induction ms) (simp_all add: naive_or_missing_row)

lemma naive_or_missing_filled:
  "naive_or_missing td m \<Longrightarrow>
   (if isna (last_modified_value td m) then Timestamp t_fill else last_modified_value td m) =
   Timestamp (last_modified_time td t_fill m)"
  by (auto simp: naive_or_missing_def last_modified_value_def last_modified_cell_def
      last_modified_time_def split: option.splits sum.splits parsed.splits)

lemma fillna_last_modified:
  "list_all (naive_or_missing td) ms \<Longrightarrow>
   fillna (map (last_modified_value td) ms) (Timestamp t_fill) =
   map (\<lambda>m. Timestamp (last_modified_time td t_fill m)) ms"
  by (induction ms) (simp_all add: fillna_def naive_or_missing_filled)

lemma apply_recent_timestamps:
  "apply_cells (recent_flag t_fetch) (map (\<lambda>m. Timestamp (g m)) ms) =
   Inr (map (\<lambda>m. Py (JBool (g m \<ge> t_fetch - timedelta_days 30))) ms)"
  by (induction ms) simp_all

text \<open>
  A record whose dict was built and whose filled cell got a flag is naive or missing:
  an exception of the parser ends line 47, an aware instant ends line 58.
\<close>

lemma flagged_is_naive_or_missing:
  "row_dict td m = Inr d \<Longrightarrow>
   recent_flag t_fetch
     (if isna (last_modified_value td m) then Timestamp t_fill else last_modified_value td m) = Inr f \<Longrightarrow>
   naive_or_missing td m"
  by (auto simp: naive_or_missing_def row_dict_def last_modified_value_def last_modified_cell_def
      split: option.splits sum.splits parsed.splits if_splits)

lemma apply_recent_naive:
  "list_comprehension (row_dict td) ms = Inr ds \<Longrightarrow>
   apply_cells (recent_flag t_fetch) (fillna (map (last_modified_value td) ms) (Timestamp t_fill)) = Inr fs \<Longrightarrow>
   list_all (naive_or_missing td) ms"
proof (induction ms arbitrary: ds fs)
  case Nil
  then show ?case by simp
next
  case (Cons m ms)
  from Cons.prems(1) obtain d ds' where
    d: "row_dict td m = Inr d" and ds': "list_comprehension (row_dict td) ms = Inr ds'"
    by (auto split: sum.splits)
  from Cons.prems(2) obtain f fs' where
    f: "recent_flag t_fetch
         (if isna (last_modified_value td m) then Timestamp t_fill else last_modified_value td m) = Inr f"
    and fs': "apply_cells (recent_flag t_fetch)
         (fillna (map (last_modified_value td) ms) (Timestamp t_fill)) = Inr fs'"
    by (auto simp: fillna_def split: sum.splits)
  from d f have "naive_or_missing td m" by (rule flagged_is_naive_or_missing)
  moreover from ds' fs' have "list_all (naive_or_missing td) ms" by (rule Cons.IH)
  ultimately show ?case by simp
qed

lemma DataFrame_dicts:
  "ms \<noteq> [] \<Longrightarrow> DataFrame (map (dict_of td) ms) =
     [(''modelname'', map (\<lambda>m. Py (dict_get m ''name'' (JStr ''''))) ms),
      (''modelId'', map (\<lambda>m. Py (dict_get m ''modelId'' (JStr ''''))) ms),
      (''author'', map (\<lambda>m. Py (dict_get m ''author'' (JStr ''unknown''))) ms),
      (''downloads'', map (\<lambda>m. Py (py_or (dict_get m ''downloads'' JNull) (JInt 0))) ms),
      (''likes'', map (\<lambda>m. Py (py_or (dict_get m ''likes'' JNull) (JInt 0))) ms),
      (''pipeline_tag'', map (\<lambda>m. Py (dict_get m ''pipeline_tag'' (JStr ''''))) ms),
      (''library_name'', map (\<lambda>m. Py (dict_get m ''library_name'' (JStr ''''))) ms),
      (''model_type'', map (\<lambda>m. Py (dict_get m ''model_type'' (JStr ''''))) ms),
      (''license'', map (\<lambda>m. Py (dict_get m ''license'' (JStr ''unknown''))) ms),
      (''private'', map (\<lambda>m. Py (dict_get m ''private'' (JBool False))) ms),
      (''last_modified'', map (last_modified_value td) ms)]"
  by (cases ms) (simp_all add: DataFrame_def dict_of_def)

text \<open>
  On a non-empty batch of records that are naive or missing the transform returns, and
  this is the frame.
\<close>

lemma transform_returns:
  "ms \<noteq> [] \<Longrightarrow> list_all (naive_or_missing td) ms \<Longrightarrow>
   transform_models_data td t_fill t_fetch ms = Inr (transformed td t_fill t_fetch ms)"
  by (simp add: transform_models_data_def comprehension_returns DataFrame_dicts get_column_def
      nrows_def fillna_last_modified apply_recent_timestamps transformed_def Let_def)

text \<open>It returns on no other batch.\<close>

lemma transform_returns_only:
  assumes "transform_models_data td t_fill t_fetch ms = Inr df"
  shows "ms \<noteq> [] \<and> list_all (naive_or_missing td) ms \<and> df = transformed td t_fill t_fetch ms"
proof -
  have ne: "ms \<noteq> []"
    using assms by (auto simp: transform_models_data_def DataFrame_def get_column_def)
  from assms obtain ds where ds: "list_comprehension (row_dict td) ms = Inr ds"
    by (auto simp: transform_models_data_def split: sum.splits)
  then have ds_eq: "ds = map (dict_of td) ms" by (rule comprehension_dicts)
  from assms ds ds_eq ne obtain fs where
    "apply_cells (recent_flag t_fetch)
       (fillna (map (last_modified_value td) ms) (Timestamp t_fill)) = Inr fs"
    by (auto simp: transform_models_data_def DataFrame_dicts get_column_def nrows_def Let_def
        split: sum.splits)
  with ds have nm: "list_all (naive_or_missing td) ms" by (rule apply_recent_naive)
  from ne nm assms have "df = transformed td t_fill t_fetch ms"
    by (simp add: transform_returns)
  with ne nm show ?thesis by simp
qed

lemma transform_returns_iff:
  "transform_models_data td t_fill t_fetch ms = Inr df \<longleftrightarrow>
   ms \<noteq> [] \<and> list_all (naive_or_missing td) ms \<and> df = transformed td t_fill t_fetch ms"
  using transform_returns transform_returns_only by blast

lemma column_last_modified:
  "transform_models_data td t_fill t_fetch ms = Inr df \<Longrightarrow>
   column_of (Inr df) ''last_modified'' =
     Inr (map (\<lambda>m. Timestamp (last_modified_time td t_fill m)) ms)"
  by (auto simp: transform_returns_iff column_of_def transformed_def get_column_def)

lemma column_fetch_time:
  "transform_models_data td t_fill t_fetch ms = Inr df \<Longrightarrow>
   column_of (Inr df) ''fetch_time'' =
     Inr (map (\<lambda>m. Timestamp t_fetch) ms)"
  by (auto simp: transform_returns_iff column_of_def transformed_def get_column_def
      map_replicate_const)

lemma column_is_recent:
  "transform_models_data td t_fill t_fetch ms = Inr df \<Longrightarrow>
   column_of (Inr df) ''is_recent'' =
     Inr (map (\<lambda>m. Py (JBool (last_modified_time td t_fill m \<ge> t_fetch - timedelta_days 30))) ms)"
  by (auto simp: transform_returns_iff column_of_def transformed_def get_column_def)

lemma cell_at_column:
  "column_of r name = Inr (map f ms) \<Longrightarrow> i < length ms \<Longrightarrow>
   cell_at r name i = Some (f (ms ! i))"
  by (simp add: cell_at_def)

text \<open>
  A frame the transform returns has one row per record, in the input's order: the key
  column lists the records' keys as they came.
\<close>

lemma transform_rows_in_order:
  "transform_models_data td t_fill t_fetch ms = Inr df \<Longrightarrow>
   nrows df = length ms
   \<and> get_column df ''modelId'' = Inr (map (\<lambda>m. Py (dict_get m ''modelId'' (JStr ''''))) ms)"
  by (auto simp: transform_returns_iff transformed_def get_column_def nrows_def)

text \<open>
  C3. The claim: for every sequence of record-shaped inputs, the empty sequence
  included, the transform returns without raising and gives one row per input record in
  the input's order. On the empty sequence the frame has no column, so line 51's
  \<^verbatim>\<open>df["last_modified"]\<close> raises \<^verbatim>\<open>KeyError\<close>: the transform does not return a frame.
\<close>

theorem transform_empty_raises:
  "transform_models_data to_datetime t_fill t_fetch [] = Inl (KeyError ''last_modified'')"
  by (simp add: transform_models_data_def DataFrame_def get_column_def)

text \<open>
  C5. The claim: each of \<^verbatim>\<open>author\<close>, \<^verbatim>\<open>pipeline_tag\<close>, \<^verbatim>\<open>library_name\<close>, \<^verbatim>\<open>model_type\<close>
  and \<^verbatim>\<open>license\<close> takes its default when the raw value is absent or null, and any other
  value as it is. What holds, in every frame the transform returns: the default
  (\<^verbatim>\<open>"unknown"\<close> for author and license, the empty string for the others) replaces an
  absent key only; every present value, null included, is kept as it is, untrimmed and
  in its own case.
\<close>

theorem string_fields_default_only_when_absent:
  "transform_models_data td t_fill t_fetch ms = Inr df \<Longrightarrow>
     get_column df ''author'' =
       Inr (map (\<lambda>m. Py (case m ''author'' of None \<Rightarrow> JStr ''unknown'' | Some v \<Rightarrow> v)) ms)
   \<and> get_column df ''pipeline_tag'' =
       Inr (map (\<lambda>m. Py (case m ''pipeline_tag'' of None \<Rightarrow> JStr '''' | Some v \<Rightarrow> v)) ms)
   \<and> get_column df ''library_name'' =
       Inr (map (\<lambda>m. Py (case m ''library_name'' of None \<Rightarrow> JStr '''' | Some v \<Rightarrow> v)) ms)
   \<and> get_column df ''model_type'' =
       Inr (map (\<lambda>m. Py (case m ''model_type'' of None \<Rightarrow> JStr '''' | Some v \<Rightarrow> v)) ms)
   \<and> get_column df ''license'' =
       Inr (map (\<lambda>m. Py (case m ''license'' of None \<Rightarrow> JStr ''unknown'' | Some v \<Rightarrow> v)) ms)"
  by (auto simp: transform_returns_iff transformed_def get_column_def dict_get_def)

text \<open>
  Three records: an author with spaces and capitals, a record with no author, and a
  record whose author is null. The transform returns a frame for them.
\<close>

theorem string_fields_witness:
  "transform_models_data sample_to_datetime 100 200
      [[''author'' \<mapsto> JStr '' Ada ''], [''license'' \<mapsto> JStr ''MIT''], [''author'' \<mapsto> JNull]] =
     Inr (transformed sample_to_datetime 100 200
      [[''author'' \<mapsto> JStr '' Ada ''], [''license'' \<mapsto> JStr ''MIT''], [''author'' \<mapsto> JNull]])
   \<and> get_column (transformed sample_to_datetime 100 200
        [[''author'' \<mapsto> JStr '' Ada ''], [''license'' \<mapsto> JStr ''MIT''], [''author'' \<mapsto> JNull]])
        ''author'' =
       Inr [Py (JStr '' Ada ''), Py (JStr ''unknown''), Py JNull]
   \<and> get_column (transformed sample_to_datetime 100 200
        [[''author'' \<mapsto> JStr '' Ada ''], [''license'' \<mapsto> JStr ''MIT''], [''author'' \<mapsto> JNull]])
        ''license'' =
       Inr [Py (JStr ''unknown''), Py (JStr ''MIT''), Py (JStr ''unknown'')]"
proof -
  let ?ms = "[[''author'' \<mapsto> JStr '' Ada ''], [''license'' \<mapsto> JStr ''MIT''], [''author'' \<mapsto> JNull]]"
  have r: "transform_models_data sample_to_datetime 100 200 ?ms =
      Inr (transformed sample_to_datetime 100 200 ?ms)"
    by (simp add: transform_returns naive_or_missing_def)
  from string_fields_default_only_when_absent [OF r] r show ?thesis
    by simp
qed

text \<open>A null author stays null: \<^verbatim>\<open>{"author": None}\<close> does not become \<^verbatim>\<open>"unknown"\<close>.\<close>

theorem null_author_not_defaulted:
  "column_of (transform_models_data sample_to_datetime 100 200 [[''author'' \<mapsto> JNull]]) ''author''
     = Inr [Py JNull]
   \<and> Py JNull \<noteq> Py (JStr ''unknown'')"
  by (simp add: transform_returns naive_or_missing_def column_of_def transformed_def
      get_column_def dict_get_def)

text \<open>
  C2. The claim: a record whose \<^verbatim>\<open>lastModified\<close> is absent or unparseable gets
  \<^verbatim>\<open>last_modified\<close> equal to the run's \<^verbatim>\<open>fetch_time\<close>, and so \<^verbatim>\<open>is_recent\<close> true. What
  holds, in every frame the transform returns: a record whose \<^verbatim>\<open>lastModified\<close> is absent
  or coerced to a missing value gets the instant of line 51's own clock reading
  \<open>t_fill\<close>, which is taken before and apart from the reading \<open>t_fetch\<close> that becomes
  \<^verbatim>\<open>fetch_time\<close>; its \<^verbatim>\<open>is_recent\<close> is true exactly when \<open>t_fill\<close> is no more than thirty
  days before \<open>t_fetch\<close>.
\<close>

theorem missing_last_modified_gets_fill_time:
  assumes "transform_models_data td t_fill t_fetch ms = Inr df" and "i < length ms"
    and "(ms ! i) ''lastModified'' = None
         \<or> (\<exists>v. (ms ! i) ''lastModified'' = Some v \<and> td v = Inr Coerced)"
  shows "cell_at (Inr df) ''last_modified'' i = Some (Timestamp t_fill)
     \<and> cell_at (Inr df) ''fetch_time'' i = Some (Timestamp t_fetch)
     \<and> cell_at (Inr df) ''is_recent'' i =
           Some (Py (JBool (t_fill \<ge> t_fetch - timedelta_days 30)))"
proof -
  have t: "last_modified_time td t_fill (ms ! i) = t_fill"
    using assms(3) by (auto simp: last_modified_time_def)
  have r: "transform_models_data td t_fill t_fetch ms = Inr df"
    by (rule assms(1))
  show ?thesis
    using assms(2) t
      cell_at_column [OF column_last_modified [OF r]]
      cell_at_column [OF column_fetch_time [OF r]]
      cell_at_column [OF column_is_recent [OF r]]
    by simp
qed

text \<open>
  A record with an unparseable date and one with none, the two clock readings 150
  microseconds apart.
\<close>

theorem missing_last_modified_witness:
  "transform_models_data sample_to_datetime 1700000000000000000 1700000000000150000
      [[''lastModified'' \<mapsto> JStr ''not a date''], Map.empty] =
     Inr (transformed sample_to_datetime 1700000000000000000 1700000000000150000
      [[''lastModified'' \<mapsto> JStr ''not a date''], Map.empty])
   \<and> ([[''lastModified'' \<mapsto> JStr ''not a date''], Map.empty] ! 0) ''lastModified'' =
       Some (JStr ''not a date'')
   \<and> sample_to_datetime (JStr ''not a date'') = Inr Coerced
   \<and> ([[''lastModified'' \<mapsto> JStr ''not a date''], Map.empty] ! 1) ''lastModified'' = None
   \<and> cell_at (Inr (transformed sample_to_datetime 1700000000000000000 1700000000000150000
        [[''lastModified'' \<mapsto> JStr ''not a date''], Map.empty])) ''last_modified'' 0 =
       Some (Timestamp 1700000000000000000)
   \<and> cell_at (Inr (transformed sample_to_datetime 1700000000000000000 1700000000000150000
        [[''lastModified'' \<mapsto> JStr ''not a date''], Map.empty])) ''last_modified'' 1 =
       Some (Timestamp 1700000000000000000)
   \<and> cell_at (Inr (transformed sample_to_datetime 1700000000000000000 1700000000000150000
        [[''lastModified'' \<mapsto> JStr ''not a date''], Map.empty])) ''is_recent'' 0 =
       Some (Py (JBool True))
   \<and> cell_at (Inr (transformed sample_to_datetime 1700000000000000000 1700000000000150000
        [[''lastModified'' \<mapsto> JStr ''not a date''], Map.empty])) ''is_recent'' 1 =
       Some (Py (JBool True))"
proof -
  let ?ms = "[[''lastModified'' \<mapsto> JStr ''not a date''], Map.empty]"
  have r: "transform_models_data sample_to_datetime 1700000000000000000 1700000000000150000 ?ms =
      Inr (transformed sample_to_datetime 1700000000000000000 1700000000000150000 ?ms)"
    by (simp add: transform_returns naive_or_missing_def)
  have h0: "(?ms ! 0) ''lastModified'' = None
      \<or> (\<exists>v. (?ms ! 0) ''lastModified'' = Some v \<and> sample_to_datetime v = Inr Coerced)"
    by simp
  have h1: "(?ms ! 1) ''lastModified'' = None
      \<or> (\<exists>v. (?ms ! 1) ''lastModified'' = Some v \<and> sample_to_datetime v = Inr Coerced)"
    by simp
  have l0: "0 < length ?ms" and l1: "1 < length ?ms"
    by simp_all
  from missing_last_modified_gets_fill_time [OF r l0 h0]
    missing_last_modified_gets_fill_time [OF r l1 h1] r
  show ?thesis
    by (simp add: timedelta_days_def)
qed

text \<open>
  With the clock read at 1700000000000000000 on line 51 and 150 microseconds later on
  line 54, a record without \<^verbatim>\<open>lastModified\<close> has a \<^verbatim>\<open>last_modified\<close> that is not the
  run's \<^verbatim>\<open>fetch_time\<close>.
\<close>

theorem last_modified_differs_from_fetch_time:
  "cell_at (transform_models_data sample_to_datetime 1700000000000000000 1700000000000150000
      [Map.empty]) ''last_modified'' 0 = Some (Timestamp 1700000000000000000)
   \<and> cell_at (transform_models_data sample_to_datetime 1700000000000000000 1700000000000150000
      [Map.empty]) ''fetch_time'' 0 = Some (Timestamp 1700000000000150000)
   \<and> cell_at (transform_models_data sample_to_datetime 1700000000000000000 1700000000000150000
      [Map.empty]) ''last_modified'' 0
     \<noteq> cell_at (transform_models_data sample_to_datetime 1700000000000000000 1700000000000150000
      [Map.empty]) ''fetch_time'' 0"
  by (simp add: transform_returns naive_or_missing_def cell_at_def column_of_def transformed_def
      get_column_def last_modified_time_def)

subsection \<open>The recent flag\<close>

text \<open>
  In every frame the transform returns, \<^verbatim>\<open>is_recent\<close> is true if and only if
  \<^verbatim>\<open>last_modified >= fetch_time - 30 days\<close>, the bound included: a record exactly thirty
  days old is recent, one thirty-one days old is not.
\<close>

lemma is_recent_on_returned_frame:
  assumes "transform_models_data td t_fill t_fetch ms = Inr df" and "i < length ms"
  shows "\<exists>t. cell_at (Inr df) ''last_modified'' i = Some (Timestamp t)
     \<and> cell_at (Inr df) ''fetch_time'' i = Some (Timestamp t_fetch)
     \<and> cell_at (Inr df) ''is_recent'' i = Some (Py (JBool (t \<ge> t_fetch - timedelta_days 30)))
     \<and> (t = t_fetch - timedelta_days 30 \<longrightarrow>
          cell_at (Inr df) ''is_recent'' i = Some (Py (JBool True)))
     \<and> (t = t_fetch - timedelta_days 31 \<longrightarrow>
          cell_at (Inr df) ''is_recent'' i = Some (Py (JBool False)))"
proof -
  let ?t = "last_modified_time td t_fill (ms ! i)"
  have r: "transform_models_data td t_fill t_fetch ms = Inr df"
    by (rule assms(1))
  have lm: "cell_at (Inr df) ''last_modified'' i = Some (Timestamp ?t)"
    using assms(2) cell_at_column [OF column_last_modified [OF r]] by simp
  have ft: "cell_at (Inr df) ''fetch_time'' i = Some (Timestamp t_fetch)"
    using assms(2) cell_at_column [OF column_fetch_time [OF r]] by simp
  have ir: "cell_at (Inr df) ''is_recent'' i =
      Some (Py (JBool (?t \<ge> t_fetch - timedelta_days 30)))"
    using assms(2) cell_at_column [OF column_is_recent [OF r]] by simp
  have "timedelta_days 30 < timedelta_days 31"
    by (simp add: timedelta_days_def)
  then have b: "?t = t_fetch - timedelta_days 31 \<longrightarrow> \<not> (?t \<ge> t_fetch - timedelta_days 30)"
    by simp
  show ?thesis
    using lm ft ir b by (intro exI [of _ ?t]) auto
qed

text \<open>
  With \<^verbatim>\<open>fetch_time\<close> at 3000000000000000 ns, thirty days earlier is 408000000000000 ns
  and thirty-one days earlier is 321600000000000 ns: the first record is recent, the
  second is not.
\<close>

lemma is_recent_boundary_example:
  "3000000000000000 - timedelta_days 30 = 408000000000000
   \<and> 3000000000000000 - timedelta_days 31 = 321600000000000
   \<and> column_of (transform_models_data sample_to_datetime 2999999999999000 3000000000000000
        [[''lastModified'' \<mapsto> JInt 408000000000000], [''lastModified'' \<mapsto> JInt 321600000000000]])
        ''is_recent'' = Inr [Py (JBool True), Py (JBool False)]"
  by (simp add: transform_returns naive_or_missing_def column_of_def transformed_def
      get_column_def last_modified_time_def timedelta_days_def)

lemma recent_flag_error: "recent_flag t_fetch c = Inl e \<Longrightarrow> e = TypeError"
  by (cases c) simp_all

lemma apply_recent_error: "apply_cells (recent_flag t_fetch) cs = Inl e \<Longrightarrow> e = TypeError"
  by (induction cs) (auto split: sum.splits dest: recent_flag_error)

text \<open>
  C6. The claim: for every record, \<^verbatim>\<open>is_recent\<close> is true if and only if
  \<^verbatim>\<open>last_modified >= fetch_time - 30 days\<close>, the bound included. The comparison of line 58
  is made with the naive \<^verbatim>\<open>datetime.now()\<close>. For a record whose \<^verbatim>\<open>lastModified\<close> is parsed
  to a timezone-aware instant (an ISO string ending in \<^verbatim>\<open>Z\<close>), the transform raises and no
  record of the batch gets an \<^verbatim>\<open>is_recent\<close>; when line 47 raised for no record, the
  exception is the \<^verbatim>\<open>TypeError\<close> of line 58.
\<close>

theorem aware_last_modified_raises:
  assumes "i < length ms" and "(ms ! i) ''lastModified'' = Some v"
    and "to_datetime v = Inr (Aware t)"
  shows "(\<exists>e. transform_models_data to_datetime t_fill t_fetch ms = Inl e)
     \<and> (\<forall>ds. list_comprehension (row_dict to_datetime) ms = Inr ds \<longrightarrow>
          transform_models_data to_datetime t_fill t_fetch ms = Inl TypeError)"
proof -
  have aware: "\<not> naive_or_missing to_datetime (ms ! i)"
    using assms(2,3) by (simp add: naive_or_missing_def)
  have no_frame: "transform_models_data to_datetime t_fill t_fetch ms \<noteq> Inr df" for df
  proof
    assume "transform_models_data to_datetime t_fill t_fetch ms = Inr df"
    then have "list_all (naive_or_missing to_datetime) ms"
      by (simp add: transform_returns_iff)
    with assms(1) aware show False
      by (simp add: list_all_length)
  qed
  then have raises: "\<exists>e. transform_models_data to_datetime t_fill t_fetch ms = Inl e"
    by (cases "transform_models_data to_datetime t_fill t_fetch ms") auto
  have ne: "ms \<noteq> []"
    using assms(1) by auto
  have "transform_models_data to_datetime t_fill t_fetch ms = Inl TypeError"
    if ds: "list_comprehension (row_dict to_datetime) ms = Inr ds" for ds
  proof -
    from raises obtain e where e: "transform_models_data to_datetime t_fill t_fetch ms = Inl e"
      by blast
    have ds_eq: "ds = map (dict_of to_datetime) ms"
      using ds by (rule comprehension_dicts)
    from e ds ds_eq ne have
      "apply_cells (recent_flag t_fetch)
         (fillna (map (last_modified_value to_datetime) ms) (Timestamp t_fill)) = Inl e"
      by (auto simp: transform_models_data_def DataFrame_dicts get_column_def nrows_def Let_def
          split: sum.splits)
    then have "e = TypeError" by (rule apply_recent_error)
    with e show ?thesis by simp
  qed
  with raises show ?thesis by blast
qed

text \<open>
  The scenario of the specification: one record, last modified
  \<^verbatim>\<open>2024-01-01T00:00:00Z\<close>, fetched at 2024-02-01T00:00:00, which is 1706745600000000000.
\<close>

theorem aware_last_modified_witness:
  "([[''modelId'' \<mapsto> JStr ''a/b'', ''downloads'' \<mapsto> JNull, ''likes'' \<mapsto> JInt 5,
       ''lastModified'' \<mapsto> JStr ''2024-01-01T00:00:00Z'']] ! 0) ''lastModified'' =
     Some (JStr ''2024-01-01T00:00:00Z'')
   \<and> sample_to_datetime (JStr ''2024-01-01T00:00:00Z'') = Inr (Aware 1704067200000000000)
   \<and> transform_models_data sample_to_datetime 1706745599999900000 1706745600000000000
       [[''modelId'' \<mapsto> JStr ''a/b'', ''downloads'' \<mapsto> JNull, ''likes'' \<mapsto> JInt 5,
         ''lastModified'' \<mapsto> JStr ''2024-01-01T00:00:00Z'']] = Inl TypeError"
proof -
  let ?m = "[''modelId'' \<mapsto> JStr ''a/b'', ''downloads'' \<mapsto> JNull, ''likes'' \<mapsto> JInt 5,
       ''lastModified'' \<mapsto> JStr ''2024-01-01T00:00:00Z'']"
  have h1: "0 < length [?m]" by simp
  have h2: "([?m] ! 0) ''lastModified'' = Some (JStr ''2024-01-01T00:00:00Z'')" by simp
  have h3: "sample_to_datetime (JStr ''2024-01-01T00:00:00Z'') = Inr (Aware 1704067200000000000)"
    by simp
  have built: "\<exists>ds. list_comprehension (row_dict sample_to_datetime) [?m] = Inr ds"
    by (simp add: row_dict_def last_modified_cell_def)
  from aware_last_modified_raises
      [where i = 0 and ms = "[?m]" and to_datetime = sample_to_datetime
        and t_fill = 1706745599999900000 and t_fetch = 1706745600000000000, OF h1 h2 h3]
    built
  have "transform_models_data sample_to_datetime 1706745599999900000 1706745600000000000 [?m] =
      Inl TypeError"
    by blast
  with h2 h3 show ?thesis by simp
qed

section \<open>Properties of the load\<close>

lemma map2_Cons_maps: "map2 (#) (map f ms) (map g ms) = map (\<lambda>m. f m # g m) ms"
  by (induction ms) simp_all

lemma map2_Cons_replicate:
  "map2 (#) (map f ms) (replicate (length ms) c) = map (\<lambda>m. f m # c) ms"
  by (induction ms) simp_all

text \<open>The parameter lists the loader sends for the transform's frame: one per model.\<close>

lemma select_records_transformed:
  "select_records (transformed td t_fill t_fetch ms) = Inr (map (record_of td t_fill t_fetch) ms)"
  by (simp add: select_records_def schema_columns_def transformed_def get_column_def
      map2_Cons_maps map2_Cons_replicate record_of_def)




lemma load_transformed:
  "load_to_postgres env (transformed td t_fill t_fetch ms) s =
   (if connect_fails env then (Inl OperationalError, s)
    else if create_fails env
      then (Inl DatabaseError, s\<lparr>open_connections := Suc (open_connections s)\<rparr>)
    else (case execute_batch env (map (record_of td t_fill t_fetch) ms) (existing_rows s) of
            Inl e \<Rightarrow> (Inl e, s\<lparr>open_connections := Suc (open_connections s)\<rparr>)
          | Inr rows' \<Rightarrow>
              if commit_fails env
              then (Inl DatabaseError, s\<lparr>open_connections := Suc (open_connections s)\<rparr>)
              else (Inr (), s\<lparr>table := Some rows'\<rparr>)))"
  by (simp add: load_to_postgres_def select_records_transformed Let_def split: sum.splits)

lemma execute_batch_append:
  "execute_batch env (pre @ rest) rows =
     (case execute_batch env pre rows of
        Inl e \<Rightarrow> Inl e
      | Inr mid \<Rightarrow> execute_batch env rest mid)"
  by (induction pre arbitrary: rows) (simp_all split: sum.splits)

subsection \<open>The primary key\<close>

text \<open>
  The statement never makes a second row for a key: the keys after it are the keys
  before it and the new row's, and keys that were distinct stay distinct.
\<close>

lemma upsert_keys:
  "set (map modelId (upsert new rows)) = insert (modelId new) (set (map modelId rows))"
  by (induction rows) auto

lemma upsert_distinct:
  "distinct (map modelId rows) \<Longrightarrow> distinct (map modelId (upsert new rows))"
proof (induction rows)
  case Nil
  then show ?case by simp
next
  case (Cons r rows)
  have "modelId r \<noteq> modelId new \<Longrightarrow> modelId r \<notin> modelId ` set rows \<Longrightarrow>
        modelId r \<notin> modelId ` set (upsert new rows)"
    using upsert_keys [of new rows] by auto
  with Cons show ?case by auto
qed

lemma execute_batch_distinct:
  "execute_batch env records rows = Inr rows' \<Longrightarrow> distinct (map modelId rows) \<Longrightarrow>
   distinct (map modelId rows')"
proof (induction records arbitrary: rows)
  case Nil
  then show ?case by simp
next
  case (Cons params rest)
  from Cons.prems(1) obtain mid where
    m: "execute env params rows = Inr mid" and r: "execute_batch env rest mid = Inr rows'"
    by (auto split: sum.splits)
  from m Cons.prems(2) have "distinct (map modelId mid)"
    by (auto simp: execute_def upsert_distinct split: option.splits if_splits)
  with r show ?case by (rule Cons.IH)
qed

subsection \<open>The connection\<close>

text \<open>A successful call closes the connection it opened.\<close>

lemma load_success_closes_connection:
  "load_to_postgres env df s = (Inr (), s') \<Longrightarrow> open_connections s' = open_connections s"
  by (auto simp: load_to_postgres_def Let_def split: if_splits sum.splits)

text \<open>A call that fails after connecting returns with its connection still open.\<close>

lemma load_failure_leaves_connection_open:
  "\<not> connect_fails env \<Longrightarrow> load_to_postgres env df s = (Inl e, s') \<Longrightarrow>
   open_connections s' = Suc (open_connections s)"
  by (auto simp: load_to_postgres_def Let_def split: if_splits sum.splits)


subsection \<open>What reaches the table\<close>







subsection \<open>All or nothing\<close>

text \<open>
  C7. The loader commits only after every row of the batch has been submitted. A
  failure to connect, of the schema statement or of any row write is returned to the
  caller as the error raised, and whenever the call fails the committed table is what
  it was before the call.
\<close>

theorem load_all_or_nothing:
  "(\<forall>e s'. load_to_postgres env df s = (Inl e, s') \<longrightarrow> table s' = table s)
   \<and> (connect_fails env \<longrightarrow> fst (load_to_postgres env df s) = Inl OperationalError)
   \<and> (\<not> connect_fails env \<and> create_fails env \<longrightarrow>
        fst (load_to_postgres env df s) = Inl DatabaseError)
   \<and> (\<forall>pre params post mid e.
        \<not> connect_fails env \<and> \<not> create_fails env
        \<and> select_records df = Inr (pre @ params # post)
        \<and> execute_batch env pre (existing_rows s) = Inr mid
        \<and> execute env params mid = Inl e \<longrightarrow>
        fst (load_to_postgres env df s) = Inl e)
   \<and> (\<forall>s'. load_to_postgres env df s = (Inr (), s') \<longrightarrow>
        (\<exists>records rows'. select_records df = Inr records
           \<and> execute_batch env records (existing_rows s) = Inr rows'
           \<and> table s' = Some rows'))"
proof (intro conjI allI impI)
  fix e s' assume "load_to_postgres env df s = (Inl e, s')"
  then show "table s' = table s"
    by (auto simp: load_to_postgres_def Let_def split: if_splits sum.splits)
next
  assume "connect_fails env"
  then show "fst (load_to_postgres env df s) = Inl OperationalError"
    by (simp add: load_to_postgres_def)
next
  assume "\<not> connect_fails env \<and> create_fails env"
  then show "fst (load_to_postgres env df s) = Inl DatabaseError"
    by (simp add: load_to_postgres_def)
next
  fix pre params post mid e
  assume h: "\<not> connect_fails env \<and> \<not> create_fails env
        \<and> select_records df = Inr (pre @ params # post)
        \<and> execute_batch env pre (existing_rows s) = Inr mid
        \<and> execute env params mid = Inl e"
  then have "execute_batch env (pre @ params # post) (existing_rows s) = Inl e"
    by (simp add: execute_batch_append)
  with h show "fst (load_to_postgres env df s) = Inl e"
    by (simp add: load_to_postgres_def)
next
  fix s' assume "load_to_postgres env df s = (Inr (), s')"
  then show "\<exists>records rows'. select_records df = Inr records
           \<and> execute_batch env records (existing_rows s) = Inr rows'
           \<and> table s' = Some rows'"
    by (auto simp: load_to_postgres_def Let_def split: if_splits sum.splits)
qed

text \<open>
  A batch of two rows on the one-row table, the second with a null key: the first row
  is written in the transaction, the second is refused, the error comes back and the
  committed table is the old one. The same batch when the connection or the schema
  statement fails; and the first row alone, which is committed.
\<close>

theorem load_all_or_nothing_witness:
  "load_to_postgres no_faults
      (transformed sample_to_datetime 100 200 [[''modelId'' \<mapsto> JStr ''c/d''], [''modelId'' \<mapsto> JNull]])
      one_row_store = (Inl IntegrityError, one_row_store\<lparr>open_connections := 1\<rparr>)
   \<and> table (one_row_store\<lparr>open_connections := 1\<rparr>) = table one_row_store
   \<and> fst (load_to_postgres (no_faults\<lparr>connect_fails := True\<rparr>)
      (transformed sample_to_datetime 100 200 [[''modelId'' \<mapsto> JStr ''c/d''], [''modelId'' \<mapsto> JNull]])
      one_row_store) = Inl OperationalError
   \<and> fst (load_to_postgres (no_faults\<lparr>create_fails := True\<rparr>)
      (transformed sample_to_datetime 100 200 [[''modelId'' \<mapsto> JStr ''c/d''], [''modelId'' \<mapsto> JNull]])
      one_row_store) = Inl DatabaseError
   \<and> map modelId (existing_rows (snd (load_to_postgres no_faults
      (transformed sample_to_datetime 100 200 [[''modelId'' \<mapsto> JStr ''c/d'']]) one_row_store))) =
       [Py (JStr ''a/b''), Py (JStr ''c/d'')]"
proof -
  let ?good = "[''modelId'' \<mapsto> JStr ''c/d'']"
  let ?bad = "[''modelId'' \<mapsto> JNull]"
  let ?df = "transformed sample_to_datetime 100 200 [?good, ?bad]"
  let ?s1 = "one_row_store\<lparr>open_connections := 1\<rparr>"
  have sel: "select_records ?df =
      Inr ([record_of sample_to_datetime 100 200 ?good] @ record_of sample_to_datetime 100 200 ?bad # [])"
    by (simp add: select_records_transformed)
  obtain mid where pre:
    "execute_batch no_faults [record_of sample_to_datetime 100 200 ?good]
       (existing_rows one_row_store) = Inr mid"
    by (simp add: record_of_def execute_def no_faults_def dict_get_def)
  have bad: "execute no_faults (record_of sample_to_datetime 100 200 ?bad) mid = Inl IntegrityError"
    by (simp add: record_of_def execute_def dict_get_def)
  have nf: "\<not> connect_fails no_faults \<and> \<not> create_fails no_faults"
    by (simp add: no_faults_def)
  have surfaced: "fst (load_to_postgres no_faults ?df one_row_store) = Inl IntegrityError"
    using load_all_or_nothing [of no_faults ?df one_row_store, THEN conjunct2, THEN conjunct2,
        THEN conjunct2, THEN conjunct1] nf sel pre bad
    by blast
  have opened: "snd (load_to_postgres no_faults ?df one_row_store) = ?s1"
    by (simp add: load_transformed record_of_def execute_def no_faults_def one_row_store_def
        existing_rows_def dict_get_def py_or_def last_modified_time_def timedelta_days_def)
  have a: "load_to_postgres no_faults ?df one_row_store = (Inl IntegrityError, ?s1)"
    using surfaced opened by (simp add: prod_eq_iff)
  have b: "table ?s1 = table one_row_store"
    using load_all_or_nothing [of no_faults ?df one_row_store, THEN conjunct1] a by blast
  have c: "fst (load_to_postgres (no_faults\<lparr>connect_fails := True\<rparr>) ?df one_row_store) =
      Inl OperationalError"
    using load_all_or_nothing [of "no_faults\<lparr>connect_fails := True\<rparr>" ?df one_row_store,
        THEN conjunct2, THEN conjunct1]
    by simp
  have d: "fst (load_to_postgres (no_faults\<lparr>create_fails := True\<rparr>) ?df one_row_store) =
      Inl DatabaseError"
    using load_all_or_nothing [of "no_faults\<lparr>create_fails := True\<rparr>" ?df one_row_store,
        THEN conjunct2, THEN conjunct2, THEN conjunct1]
    by (simp add: no_faults_def)
  have e: "map modelId (existing_rows (snd (load_to_postgres no_faults
      (transformed sample_to_datetime 100 200 [?good]) one_row_store))) =
       [Py (JStr ''a/b''), Py (JStr ''c/d'')]"
    by (simp add: load_transformed record_of_def execute_def no_faults_def one_row_store_def
        existing_rows_def dict_get_def py_or_def last_modified_time_def timedelta_days_def)
  show ?thesis
    using a b c d e by (intro conjI)
qed

subsection \<open>The conflict clause\<close>

text \<open>
  C1. The claim: when a record's \<^verbatim>\<open>model_id\<close> is already in the table, every non-key
  column of the stored row (author, downloads, likes, pipeline_tag, library_name,
  model_type, license, private, last_modified, is_recent, fetch_time) is overwritten
  with the incoming values. The \<^verbatim>\<open>SET\<close> list of lines 102 to 111 names ten of the eleven
  columns and leaves \<^verbatim>\<open>author\<close> out. Here the table holds the row of \<^verbatim>\<open>a/b\<close> with
  author \<^verbatim>\<open>old\<close>, and the run brings \<^verbatim>\<open>a/b\<close> with author \<^verbatim>\<open>new\<close> and nine likes: the
  stored row takes the ten columns of the incoming record and keeps author \<^verbatim>\<open>old\<close>.
\<close>

theorem conflict_keeps_stored_author:
  "transform_and_load sample_to_datetime no_faults 100 200
     [[''modelId'' \<mapsto> JStr ''a/b'', ''author'' \<mapsto> JStr ''new'', ''likes'' \<mapsto> JInt 9]]
     one_row_store =
   (Inr (),
    \<lparr>table = Some [\<lparr>modelId = Py (JStr ''a/b''), author = Py (JStr ''old''),
       downloads = Py (JInt 0), likes = Py (JInt 9), pipeline_tag = Py (JStr ''''),
       library_name = Py (JStr ''''), model_type = Py (JStr ''''),
       license = Py (JStr ''unknown''), private' = Py (JBool False),
       last_modified = Timestamp 100, is_recent = Py (JBool True),
       fetch_time = Timestamp 200\<rparr>],
     open_connections = 0\<rparr>)"
  by (simp add: transform_and_load_def transform_returns naive_or_missing_def load_transformed record_of_def
      execute_def no_faults_def one_row_store_def existing_rows_def dict_get_def py_or_def
      last_modified_time_def timedelta_days_def)

text \<open>
  C8. The claim: upserting the same sequence of records twice leaves one row per
  distinct \<^verbatim>\<open>model_id\<close>, each holding the values written by the second run. Here the same
  one-record batch (\<^verbatim>\<open>a/b\<close>, author \<^verbatim>\<open>new\<close>, nine likes) is loaded twice into the table
  that holds \<^verbatim>\<open>a/b\<close> with author \<^verbatim>\<open>old\<close>: there is one row for \<^verbatim>\<open>a/b\<close>, and its author
  is still \<^verbatim>\<open>old\<close>, which neither run wrote.
\<close>

theorem second_run_keeps_stored_author:
  "transform_and_load sample_to_datetime no_faults 100 200
     [[''modelId'' \<mapsto> JStr ''a/b'', ''author'' \<mapsto> JStr ''new'', ''likes'' \<mapsto> JInt 9]]
     (snd (transform_and_load sample_to_datetime no_faults 100 200
        [[''modelId'' \<mapsto> JStr ''a/b'', ''author'' \<mapsto> JStr ''new'', ''likes'' \<mapsto> JInt 9]]
        one_row_store)) =
   (Inr (),
    \<lparr>table = Some [\<lparr>modelId = Py (JStr ''a/b''), author = Py (JStr ''old''),
       downloads = Py (JInt 0), likes = Py (JInt 9), pipeline_tag = Py (JStr ''''),
       library_name = Py (JStr ''''), model_type = Py (JStr ''''),
       license = Py (JStr ''unknown''), private' = Py (JBool False),
       last_modified = Timestamp 100, is_recent = Py (JBool True),
       fetch_time = Timestamp 200\<rparr>],
     open_connections = 0\<rparr>)"
  by (simp add: transform_and_load_def transform_returns naive_or_missing_def load_transformed record_of_def
      execute_def no_faults_def one_row_store_def existing_rows_def dict_get_def py_or_def
      last_modified_time_def timedelta_days_def)

text \<open>
  C10. The claim: a record with no \<^verbatim>\<open>modelId\<close> is not rejected but gets the key
  \<^verbatim>\<open>""\<close>, so all such records of a batch share one key and at most one row, the last
  one written, is left for them. Here two records without \<^verbatim>\<open>modelId\<close> are loaded into
  a store with no table, the first by author \<^verbatim>\<open>a\<close> with one like, the second by author
  \<^verbatim>\<open>b\<close> with two: one row with the key \<^verbatim>\<open>""\<close> is left, holding the second record's two
  likes and the first record's author.
\<close>

theorem missing_ids_share_one_row:
  "transform_and_load sample_to_datetime no_faults 100 200
     [[''author'' \<mapsto> JStr ''a'', ''likes'' \<mapsto> JInt 1],
      [''author'' \<mapsto> JStr ''b'', ''likes'' \<mapsto> JInt 2]]
     fresh_store =
   (Inr (),
    \<lparr>table = Some [\<lparr>modelId = Py (JStr ''''), author = Py (JStr ''a''),
       downloads = Py (JInt 0), likes = Py (JInt 2), pipeline_tag = Py (JStr ''''),
       library_name = Py (JStr ''''), model_type = Py (JStr ''''),
       license = Py (JStr ''unknown''), private' = Py (JBool False),
       last_modified = Timestamp 100, is_recent = Py (JBool True),
       fetch_time = Timestamp 200\<rparr>],
     open_connections = 0\<rparr>)"
  by (simp add: transform_and_load_def transform_returns naive_or_missing_def load_transformed record_of_def
      execute_def no_faults_def fresh_store_def existing_rows_def dict_get_def py_or_def
      last_modified_time_def timedelta_days_def)

subsection \<open>The failure path\<close>

text \<open>
  C4. The claim: the connection the loader opens is closed on every exit path, the
  failure path included, before the error is re-raised. \<^verbatim>\<open>conn.close()\<close> stands on line
  117, inside the \<^verbatim>\<open>try\<close>, and the handler of lines 120 to 122 only logs and
  re-raises. Here a record with a null \<^verbatim>\<open>modelId\<close> is loaded into a store with no
  table and no open connection: the key is refused, the error reaches the caller and
  one connection is still open.
\<close>

theorem failed_load_leaves_connection_open:
  "transform_and_load sample_to_datetime no_faults 100 200 [[''modelId'' \<mapsto> JNull]] fresh_store =
   (Inl IntegrityError, \<lparr>table = None, open_connections = 1\<rparr>)"
  by (simp add: transform_and_load_def transform_returns naive_or_missing_def load_transformed record_of_def
      execute_def no_faults_def fresh_store_def existing_rows_def dict_get_def py_or_def
      last_modified_time_def timedelta_days_def)
end
